theory Spec2Isabelle
  imports Complex_Main "HOL-Library.Product_Lexorder"
begin

section \<open>Data model\<close>

text \<open>
  A Python \<open>str\<close> is a sequence of Unicode code points and \<open>len\<close> counts code points.
  The script's literals are Cyrillic, so a string is modelled as the list of its code
  points; \<open>ascii\<close> embeds an ASCII literal.
\<close>

type_synonym pystr = "nat list"

definition ascii :: "string \<Rightarrow> pystr" where
  "ascii s = map of_char s"

text \<open>
  A pandas \<open>Timestamp\<close>. \<open>ts_key\<close> is the chronological order that \<open>groupby\<close> sorts
  its keys by.
\<close>

record timestamp =
  year :: nat
  month :: nat
  day :: nat
  second_of_day :: nat

definition ts_key :: "timestamp \<Rightarrow> nat \<times> nat \<times> nat \<times> nat" where
  "ts_key t = (year t, month t, day t, second_of_day t)"

text \<open>
  A cell of a table as \<open>read_excel\<close> delivers it, before any cleaning: a number, a text,
  a timestamp, or the missing marker (NaN / NaT).
\<close>

datatype cell = Num rat | Text pystr | Stamp timestamp | NaN

text \<open>
  One row of a table with the canonical column names of \<open>COLS_MAPPING\<close>. The row type is
  polymorphic in the cell types of the columns that \<open>validate_and_clean_data\<close> retypes:
  a loaded row holds raw cells, a cleaned row holds a timestamp, three numbers and a
  string, and has the derived column \<open>period\<close>.
\<close>

record ('d, 'n, 's) row =
  date :: 'd
  bonus_plus :: 'n
  bonus_minus :: 'n
  liters :: 'n
  reason :: 's
  azs_number :: cell
  fuel_mark :: cell

record ('d, 'n, 's) clean_row = "('d, 'n, 's) row" +
  period :: timestamp

type_synonym raw_row = "(cell, cell, cell) row"
type_synonym cleaned_row = "(timestamp, rat, pystr) clean_row"

text \<open>A loaded table: the names of its columns and its rows.\<close>

record frame =
  columns :: "string list"
  rows :: "raw_row list"

text \<open>
  One row of the report. The column names of the source are Cyrillic; the fields carry
  the names the specification gives them, and \<open>period_label\<close> is the column that the
  source names \<open>"Period"\<close> in Cyrillic letters. The numeric columns are float64 or int64
  columns: their values are of a type \<open>'v\<close> that the model leaves open, and what pandas
  computes with them is a parameter (\<open>arith\<close> below). In \<open>report.py\<close> the label is a
  string (\<open>'l = pystr\<close>).
\<close>

record ('l, 'v) report_row =
  period_label :: 'l
  bonus_accrued :: 'v
  liters_with_bonus :: 'v
  liters_total :: 'v
  bonus_redeemed :: 'v
  rate_per_liter :: 'v

text \<open>
  One row of the report of \<open>old/report_final.py\<close>. Its \<open>rename\<close> names a column
  \<open>"index"\<close> that does not exist, so the labels of the periods stay in the column
  \<open>period\<close> (\<open>period_column\<close> here), and the column \<open>period_label\<close> comes into being
  with the total row only: a period row has NaN there (\<open>None\<close>), and the total row has NaN
  in \<open>period_column\<close>.
\<close>

record 'v final_row = "(pystr option, 'v) report_row" +
  period_column :: "pystr option"

text \<open>
  The exceptions of a run. \<open>SummaryError\<close> stands for the exception raised while the
  summary of the excluded codes is printed (a KeyError for a missing column, or the
  TypeError or ValueError of a sum that is not a number).
\<close>

datatype error =
    ZeroDivisionError
  | ValueError
  | IndexError
  | AttributeError
  | SummaryError

section \<open>Aggregator\<close>

text \<open>
  \<open>df.groupby("period")[col].sum()\<close>: the distinct periods in ascending order, each
  with the sum of the column over the rows of that period.
\<close>

definition group_keys :: "cleaned_row list \<Rightarrow> timestamp list" where
  "group_keys df = sort_key ts_key (remdups (map period df))"

text \<open>
  The arithmetic of the report columns, as pandas and numpy do it. A cleaned cell holds
  a finite number; a sum of cells is a float64 or int64 sum, which rounds, overflows or
  wraps, so its value is whatever the library computes:
  \<^item> \<open>col_sum\<close>: \<open>.sum()\<close> of the cells of one group of a cleaned column;
  \<^item> \<open>report_sum\<close>: \<open>.sum()\<close> of a column of the report;
  \<^item> \<open>zero_val\<close>: the value of the literal \<open>0\<close> in a column;
  \<^item> \<open>fillna0\<close>: \<open>fillna(0)\<close> on a value (0 for NaN, else the value);
  \<^item> \<open>nonzero\<close>: the test \<open>!= 0\<close>;
  \<^item> \<open>abs_val\<close>: \<open>.abs()\<close>;
  \<^item> \<open>true_div\<close>: the division \<open>/\<close> of two column values.
\<close>

record 'v arith =
  col_sum :: "rat list \<Rightarrow> 'v"
  report_sum :: "'v list \<Rightarrow> 'v"
  zero_val :: 'v
  fillna0 :: "'v \<Rightarrow> 'v"
  nonzero :: "'v \<Rightarrow> bool"
  abs_val :: "'v \<Rightarrow> 'v"
  true_div :: "'v \<Rightarrow> 'v \<Rightarrow> 'v"

definition groupby_sum ::
  "'v arith \<Rightarrow> (cleaned_row \<Rightarrow> rat) \<Rightarrow> cleaned_row list \<Rightarrow> (timestamp \<times> 'v) list" where
  "groupby_sum ar col df =
     map (\<lambda>k. (k, col_sum ar (map col (filter (\<lambda>r. period r = k) df)))) (group_keys df)"

text \<open>
  The index of \<open>report\<close>. It starts as the periods of \<open>positive_bonus\<close>. When no row has
  a positive bonus the grouped frame has no index at all, and the assignment of the
  series \<open>total_liters\<close> then gives the frame the index of that series: every period of
  the cleaned table.
\<close>

definition report_index :: "cleaned_row list \<Rightarrow> timestamp list" where
  "report_index df_clean =
     (let positive_bonus = filter (\<lambda>r. bonus_plus r > 0) df_clean
      in if positive_bonus = [] then group_keys df_clean else group_keys positive_bonus)"

text \<open>
  The cell that a series leaves in a row of the report, after \<open>fillna(0)\<close>: columns are
  aligned to the index of the report, and a period that the series lacks holds NaN.
\<close>

definition aligned :: "'v arith \<Rightarrow> (timestamp \<times> 'v) list \<Rightarrow> timestamp \<Rightarrow> 'v" where
  "aligned ar series k =
     (case map_of series k of None \<Rightarrow> zero_val ar | Some v \<Rightarrow> fillna0 ar v)"

text \<open>
  The row-wise \<open>lambda\<close> of \<open>report.apply(..., axis=1)\<close>, and the same guarded division
  of the total row.
\<close>

definition rate_lambda :: "'v arith \<Rightarrow> 'v \<Rightarrow> 'v \<Rightarrow> 'v" where
  "rate_lambda ar accrued with_bonus =
     (if nonzero ar with_bonus then true_div ar accrued with_bonus else zero_val ar)"

text \<open>
  \<open>calculate_report\<close> of \<open>report.py\<close>. The columns assigned to \<open>report\<close> are aligned to
  its index (a left join), and \<open>strftime_BY\<close> is the locale's \<open>strftime("%B %Y")\<close>. The
  index column is renamed to the label column.
\<close>

definition calculate_report ::
  "'v arith \<Rightarrow> (timestamp \<Rightarrow> pystr) \<Rightarrow> cleaned_row list \<Rightarrow> (pystr, 'v) report_row list" where
  "calculate_report ar strftime_BY df =
     (let df_clean = df;
          positive_bonus = filter (\<lambda>r. bonus_plus r > 0) df_clean;
          negative_bonus = filter (\<lambda>r. bonus_minus r < 0) df_clean;
          accrued = groupby_sum ar bonus_plus positive_bonus;
          with_bonus = groupby_sum ar liters positive_bonus;
          total_liters = groupby_sum ar liters df_clean;
          total_minus =
            map (\<lambda>kv. (fst kv, abs_val ar (snd kv))) (groupby_sum ar bonus_minus negative_bonus)
      in map (\<lambda>k.
           let a = aligned ar accrued k;
               w = aligned ar with_bonus k;
               t = aligned ar total_liters k;
               m = (if negative_bonus \<noteq> [] then aligned ar total_minus k else zero_val ar)
           in \<lparr>period_label = strftime_BY k,
               bonus_accrued = a,
               liters_with_bonus = w,
               liters_total = t,
               bonus_redeemed = m,
               rate_per_liter = rate_lambda ar a w\<rparr>)
         (report_index df_clean))"

text \<open>The sentinel label of the total row, \<open>"ITOGO"\<close> in Cyrillic letters.\<close>

definition ITOGO :: pystr where
  "ITOGO = [1048, 1058, 1054, 1043, 1054]"

text \<open>
  \<open>calculate_report\<close> of \<open>old/report_final.py\<close>: the same aggregation, whose labels stay
  in the column \<open>period\<close>, followed by the total row that \<open>pd.concat\<close> appends and that
  brings the label column with it.
\<close>

definition calculate_report_final ::
  "'v arith \<Rightarrow> (timestamp \<Rightarrow> pystr) \<Rightarrow> cleaned_row list \<Rightarrow> 'v final_row list" where
  "calculate_report_final ar strftime_BY df =
     (let df_clean = df;
          positive_bonus = filter (\<lambda>r. bonus_plus r > 0) df_clean;
          negative_bonus = filter (\<lambda>r. bonus_minus r < 0) df_clean;
          accrued = groupby_sum ar bonus_plus positive_bonus;
          with_bonus = groupby_sum ar liters positive_bonus;
          total_liters = groupby_sum ar liters df_clean;
          total_minus =
            map (\<lambda>kv. (fst kv, abs_val ar (snd kv))) (groupby_sum ar bonus_minus negative_bonus);
          report = map (\<lambda>k.
             let a = aligned ar accrued k;
                 w = aligned ar with_bonus k;
                 t = aligned ar total_liters k;
                 m = (if negative_bonus \<noteq> [] then aligned ar total_minus k else zero_val ar)
             in \<lparr>period_label = None,
                 bonus_accrued = a,
                 liters_with_bonus = w,
                 liters_total = t,
                 bonus_redeemed = m,
                 rate_per_liter = rate_lambda ar a w,
                 period_column = Some (strftime_BY k)\<rparr>)
           (report_index df_clean);
          total_row = \<lparr>period_label = Some ITOGO,
             bonus_accrued = report_sum ar (map bonus_accrued report),
             liters_with_bonus = report_sum ar (map liters_with_bonus report),
             liters_total = report_sum ar (map liters_total report),
             bonus_redeemed = report_sum ar (map bonus_redeemed report),
             rate_per_liter =
               rate_lambda ar (report_sum ar (map bonus_accrued report))
                 (report_sum ar (map liters_with_bonus report)),
             period_column = None\<rparr>
      in report @ [total_row])"


section \<open>Library behaviour taken as a parameter\<close>

text \<open>
  What pandas does with an uncleaned cell is not part of the script. It is passed to the
  model as a record:
  \<^item> \<open>coerce_numeric\<close>: the value \<open>pd.to_numeric(errors="coerce")\<close> finds in a cell that
    is neither a number nor missing (\<open>None\<close>: it becomes NaN);
  \<^item> \<open>to_datetime\<close>: \<open>pd.to_datetime(dayfirst=True, errors="coerce")\<close> on a cell
    (\<open>None\<close>: NaT);
  \<^item> \<open>astype_str\<close>: \<open>astype(str)\<close> on a cell;
  \<^item> \<open>sum_prints\<close>: whether \<open>.sum()\<close> over uncleaned cells that are not all numbers,
    formatted with \<open>:,.2f\<close>, prints (it raises when the sum is not a number).
\<close>

record pandas =
  coerce_numeric :: "cell \<Rightarrow> rat option"
  to_datetime :: "cell \<Rightarrow> timestamp option"
  astype_str :: "cell \<Rightarrow> pystr"
  sum_prints :: "cell list \<Rightarrow> bool"

definition to_numeric :: "pandas \<Rightarrow> cell \<Rightarrow> cell" where
  "to_numeric pd c =
     (case c of
        Num r \<Rightarrow> Num r
      | NaN \<Rightarrow> NaN
      | _ \<Rightarrow> (case coerce_numeric pd c of Some r \<Rightarrow> Num r | None \<Rightarrow> NaN))"

text \<open>
  The sum of a selection of a column prints when every cell is a number or missing (the
  sum skips NaN); otherwise the library decides.
\<close>

definition is_number :: "cell \<Rightarrow> bool" where
  "is_number c = (case c of Num r \<Rightarrow> True | NaN \<Rightarrow> True | _ \<Rightarrow> False)"

definition sum_formats :: "pandas \<Rightarrow> cell list \<Rightarrow> bool" where
  "sum_formats pd cells \<longleftrightarrow> list_all is_number cells \<or> sum_prints pd cells"

text \<open>\<open>Series.isin(values)\<close> on a numeric column: NaN matches nothing.\<close>

definition isin :: "cell \<Rightarrow> rat list \<Rightarrow> bool" where
  "isin c vals = (case c of Num r \<Rightarrow> r \<in> set vals | _ \<Rightarrow> False)"

section \<open>Filter Engine\<close>

record config =
  ENABLE_FILTERING :: bool
  EXCLUDE_FUEL_MARKS :: "rat list"
  EXCLUDE_AZS :: "rat list"

type_synonym stats = "string \<rightharpoonup> int"

text \<open>
  The summary printed for the excluded codes: for every code with at least one row, the
  sums of the columns \<open>bonus_plus\<close> and \<open>liters\<close> over the rows of that code are printed.
  The value is whether all these lines print: the two columns must exist and their sums
  must format.
\<close>

definition excluded_summary_prints ::
  "pandas \<Rightarrow> (raw_row \<Rightarrow> cell) \<Rightarrow> rat list \<Rightarrow> frame \<Rightarrow> bool" where
  "excluded_summary_prints pd get codes df =
     list_all (\<lambda>code.
        let sel = filter (\<lambda>r. get r = Num code) (rows df)
        in length sel > 0 \<longrightarrow>
             ''bonus_plus'' \<in> set (columns df) \<and> ''liters'' \<in> set (columns df) \<and>
             sum_formats pd (map bonus_plus sel) \<and> sum_formats pd (map liters sel)) codes"

text \<open>
  One exclusion rule of \<open>apply_filters\<close>; the source writes it out twice, for
  \<open>fuel_mark\<close> and for \<open>azs_number\<close>. \<open>col\<close> is the column's name, \<open>stat\<close> the key of
  the rule's counter, \<open>get\<close> and \<open>upd\<close> read and rewrite the column in a row.
\<close>

definition exclusion_rule ::
  "pandas \<Rightarrow> string \<Rightarrow> string \<Rightarrow> (raw_row \<Rightarrow> cell) \<Rightarrow> ((cell \<Rightarrow> cell) \<Rightarrow> raw_row \<Rightarrow> raw_row)
    \<Rightarrow> rat list \<Rightarrow> frame \<times> stats \<Rightarrow> error + frame \<times> stats" where
  "exclusion_rule pd col stat get upd exclude dfs =
     (let df_filtered = fst dfs; stats = snd dfs
      in if exclude \<noteq> [] \<and> col \<in> set (columns df_filtered) then
           let coerced = map (upd (to_numeric pd)) (rows df_filtered);
               mask = (\<lambda>r. isin (get r) exclude);
               n = int (length (filter mask coerced))
           in if n > 0 \<and>
                 \<not> excluded_summary_prints pd get exclude (df_filtered\<lparr>rows := coerced\<rparr>)
              then Inl SummaryError
              else Inr (df_filtered\<lparr>rows := filter (\<lambda>r. \<not> mask r) coerced\<rparr>, stats(stat \<mapsto> n))
         else Inr (df_filtered, stats))"

definition apply_filters :: "pandas \<Rightarrow> config \<Rightarrow> frame \<Rightarrow> error + frame \<times> stats" where
  "apply_filters pd config df =
     (if \<not> ENABLE_FILTERING config
      then Inr (df, [''filtered_rows'' \<mapsto> 0, ''filtered_fuel'' \<mapsto> 0, ''filtered_azs'' \<mapsto> 0])
      else
        let initial_count = int (length (rows df));
            stats = [''filtered_rows'' \<mapsto> 0, ''filtered_fuel'' \<mapsto> 0, ''filtered_azs'' \<mapsto> 0,
                     ''initial_count'' \<mapsto> initial_count]
        in case exclusion_rule pd ''fuel_mark'' ''filtered_fuel'' fuel_mark fuel_mark_update
                  (EXCLUDE_FUEL_MARKS config) (df, stats) of
             Inl e \<Rightarrow> Inl e
           | Inr dfs1 \<Rightarrow>
               (case exclusion_rule pd ''azs_number'' ''filtered_azs'' azs_number azs_number_update
                       (EXCLUDE_AZS config) dfs1 of
                  Inl e \<Rightarrow> Inl e
                | Inr dfs2 \<Rightarrow>
                    let df_filtered = fst dfs2;
                        filtered_rows = initial_count - int (length (rows df_filtered));
                        stats2 = (snd dfs2)(''filtered_rows'' \<mapsto> filtered_rows)
                    in if initial_count = 0 then Inl ZeroDivisionError
                       else Inr (df_filtered, stats2)))"

section \<open>Validator/Cleaner\<close>

text \<open>\<open>dt.to_period("M").dt.to_timestamp()\<close>: midnight of the first day of the month.\<close>

definition to_period_M :: "timestamp \<Rightarrow> timestamp" where
  "to_period_M t = t\<lparr>day := 1, second_of_day := 0\<rparr>"

text \<open>Python's \<open>str.isspace\<close> on one code point, and \<open>str.strip()\<close>.\<close>

definition isspace :: "nat \<Rightarrow> bool" where
  "isspace c \<longleftrightarrow>
     (9 \<le> c \<and> c \<le> 13) \<or> (28 \<le> c \<and> c \<le> 32) \<or> c = 133 \<or> c = 160 \<or> c = 5760 \<or>
     (8192 \<le> c \<and> c \<le> 8202) \<or> c = 8232 \<or> c = 8233 \<or> c = 8239 \<or> c = 8287 \<or> c = 12288"

definition strip :: "pystr \<Rightarrow> pystr" where
  "strip s = rev (dropWhile isspace (rev (dropWhile isspace s)))"

text \<open>\<open>pd.to_numeric(df[col], errors="coerce").fillna(0)\<close> on one cell.\<close>

definition numeric_or_zero :: "pandas \<Rightarrow> cell \<Rightarrow> rat" where
  "numeric_or_zero pd c = (case to_numeric pd c of Num r \<Rightarrow> r | _ \<Rightarrow> 0)"

text \<open>
  The rows that \<open>dropna(subset=["date"])\<close> keeps, retyped: the parsed date, the three
  numbers, the trimmed reason, and the period.
\<close>

definition clean_rows :: "pandas \<Rightarrow> raw_row list \<Rightarrow> cleaned_row list" where
  "clean_rows pd rs =
     List.map_filter (\<lambda>r.
        case to_datetime pd (date r) of
          None \<Rightarrow> None
        | Some d \<Rightarrow> Some
            \<lparr>date = d,
             bonus_plus = numeric_or_zero pd (bonus_plus r),
             bonus_minus = numeric_or_zero pd (bonus_minus r),
             liters = numeric_or_zero pd (liters r),
             reason = strip (astype_str pd (reason r)),
             azs_number = azs_number r,
             fuel_mark = fuel_mark r,
             period = to_period_M d\<rparr>) rs"

text \<open>
  \<open>validate_and_clean_data\<close>. \<open>Inr None\<close> is the \<open>return None\<close> for missing columns.
  The statistics printed at the end format \<open>df['date'].min()\<close> with \<open>strftime\<close>; on a
  table without rows the minimum is NaT, whose \<open>strftime\<close> raises ValueError.
\<close>

definition validate_and_clean_data :: "pandas \<Rightarrow> frame \<Rightarrow> error + cleaned_row list option" where
  "validate_and_clean_data pd df =
     (let required_cols = [''date'', ''bonus_plus'', ''bonus_minus'', ''liters'', ''reason''];
          missing_cols = filter (\<lambda>col. col \<notin> set (columns df)) required_cols
      in if missing_cols \<noteq> [] then Inr None
         else
           let df_clean = clean_rows pd (rows df)
           in if df_clean = [] then Inl ValueError
              else Inr (Some df_clean))"

section \<open>The run from the concatenated table to the report\<close>

text \<open>
  \<open>load_and_process_data\<close> after \<open>pd.concat\<close>: the filters are applied before the
  validation. The tables it concatenates are the non-empty ones, so \<open>df\<close> has a row
  whenever this point is reached.
\<close>

definition load_and_process_data ::
  "pandas \<Rightarrow> config \<Rightarrow> frame \<Rightarrow> error + cleaned_row list option \<times> stats" where
  "load_and_process_data pd config df =
     (case apply_filters pd config df of
        Inl e \<Rightarrow> Inl e
      | Inr filtered \<Rightarrow>
          (case validate_and_clean_data pd (fst filtered) of
             Inl e \<Rightarrow> Inl e
           | Inr df_clean \<Rightarrow> Inr (df_clean, snd filtered)))"

text \<open>
  The report that \<open>main\<close> computes from the loaded table: \<open>None\<close> when the run ends
  without one, by an exception or because no cleaned table was returned.
\<close>

definition aggregation_results ::
  "pandas \<Rightarrow> 'v arith \<Rightarrow> (timestamp \<Rightarrow> pystr) \<Rightarrow> config \<Rightarrow> frame
    \<Rightarrow> (pystr, 'v) report_row list option" where
  "aggregation_results pd ar strftime_BY config df =
     (case load_and_process_data pd config df of
        Inl e \<Rightarrow> None
      | Inr loaded \<Rightarrow>
          (case fst loaded of
             None \<Rightarrow> None
           | Some df_raw \<Rightarrow> Some (calculate_report ar strftime_BY df_raw)))"

section \<open>Report Namer\<close>

text \<open>\<open>str.split()\<close> without arguments: the maximal runs of non-whitespace.\<close>

fun split_from :: "pystr \<Rightarrow> pystr \<Rightarrow> pystr list" where
  "split_from tok [] = (if tok = [] then [] else [tok])"
| "split_from tok (c # cs) =
     (if isspace c then (if tok = [] then split_from [] cs else tok # split_from [] cs)
      else split_from (tok @ [c]) cs)"

definition str_split :: "pystr \<Rightarrow> pystr list" where
  "str_split s = split_from [] s"

text \<open>The default sheet name, \<open>"Otchet"\<close> in Cyrillic letters, and the prefix \<open>"Otchet za "\<close>.\<close>

definition Otchet :: pystr where
  "Otchet = [1054, 1090, 1095, 1077, 1090]"

definition Otchet_za :: pystr where
  "Otchet_za = Otchet @ [32, 1079, 1072, 32]"

text \<open>
  The name built from the labels of the first and the last period: the full name, and
  its abbreviation when it is longer than 31 characters. An index into the result of
  \<open>split()\<close> that does not exist raises IndexError.
\<close>

definition make_sheet_name :: "pystr \<Rightarrow> pystr \<Rightarrow> error + pystr" where
  "make_sheet_name first_period last_period =
     (let sheet_name = Otchet_za @ first_period @ ascii '' - '' @ last_period
      in if length sheet_name > 31 then
           (case str_split first_period of
              [] \<Rightarrow> Inl IndexError
            | first_month # _ \<Rightarrow>
                (case str_split last_period of
                   last_month # last_year # _ \<Rightarrow>
                     Inr (take 3 first_month @ ascii ''-'' @ take 3 last_month @ [32] @ last_year)
                 | _ \<Rightarrow> Inl IndexError))
         else Inr sheet_name)"

text \<open>
  \<open>get_sheet_name_from_data\<close> of \<open>report.py\<close>. The report it is given is the one
  \<open>calculate_report\<close> of \<open>report.py\<close> returns, whose label column has the name the
  function looks up first and holds a string in every row, so the lookup of the other
  column names is not reached.
\<close>

definition get_sheet_name_from_data :: "(pystr, 'v) report_row list \<Rightarrow> error + pystr" where
  "get_sheet_name_from_data df_report =
     (if length df_report = 0 then Inr Otchet
      else make_sheet_name (period_label (df_report ! 0))
             (period_label (df_report ! (length df_report - 1))))"

text \<open>
  A cell of the label column in an f-string: NaN is formatted as \<open>nan\<close>.
\<close>

definition format_label :: "pystr option \<Rightarrow> pystr" where
  "format_label c = (case c of None \<Rightarrow> ascii ''nan'' | Some s \<Rightarrow> s)"

text \<open>
  The same name in \<open>old/report_final.py\<close>, whose label column can hold NaN: a float has
  no \<open>split\<close>, so the abbreviation of a name with a NaN label raises AttributeError.
\<close>

definition make_sheet_name_final :: "pystr option \<Rightarrow> pystr option \<Rightarrow> error + pystr" where
  "make_sheet_name_final first_period last_period =
     (let sheet_name = Otchet_za @ format_label first_period @ ascii '' - ''
                         @ format_label last_period
      in if length sheet_name > 31 then
           (case first_period of
              None \<Rightarrow> Inl AttributeError
            | Some first_label \<Rightarrow>
                (case str_split first_label of
                   [] \<Rightarrow> Inl IndexError
                 | first_month # _ \<Rightarrow>
                     (case last_period of
                        None \<Rightarrow> Inl AttributeError
                      | Some last_label \<Rightarrow>
                          (case str_split last_label of
                             last_month # last_year # _ \<Rightarrow>
                               Inr (take 3 first_month @ ascii ''-'' @ take 3 last_month @ [32]
                                    @ last_year)
                           | _ \<Rightarrow> Inl IndexError))))
         else Inr sheet_name)"

text \<open>
  \<open>get_sheet_name_from_data\<close> of \<open>old/report_final.py\<close>, whose report ends with the
  total row: the last period is the row before the last. It reads the label column.
\<close>

definition get_sheet_name_from_data_final :: "'v final_row list \<Rightarrow> error + pystr" where
  "get_sheet_name_from_data_final df_report =
     (if length df_report \<le> 1 then Inr Otchet
      else make_sheet_name_final (period_label (df_report ! 0))
             (period_label (df_report ! (length df_report - 2))))"

section \<open>Concrete formatting and sample tables\<close>

text \<open>
  The fallback formatter of \<open>strftime("%B %Y")\<close>: English month names (the locale that
  is left when no Russian locale can be set) and the year in decimal digits.
\<close>

fun digits :: "nat \<Rightarrow> pystr" where
  "digits n = (if n < 10 then [48 + n] else digits (n div 10) @ [48 + n mod 10])"

declare digits.simps [simp del]

definition month_name_C :: "nat \<Rightarrow> string" where
  "month_name_C m =
     [''January'', ''February'', ''March'', ''April'', ''May'', ''June'', ''July'',
      ''August'', ''September'', ''October'', ''November'', ''December''] ! (m - 1)"

definition strftime_BY_C :: "timestamp \<Rightarrow> pystr" where
  "strftime_BY_C t = ascii (month_name_C (month t)) @ [32] @ digits (year t)"

text \<open>A cleaned row of a given day with the three amounts; the other columns are blank.\<close>

definition sale :: "nat \<Rightarrow> nat \<Rightarrow> nat \<Rightarrow> rat \<Rightarrow> rat \<Rightarrow> rat \<Rightarrow> cleaned_row" where
  "sale y m d bp bm l =
     \<lparr>date = \<lparr>year = y, month = m, day = d, second_of_day = 0\<rparr>,
      bonus_plus = bp, bonus_minus = bm, liters = l, reason = [],
      azs_number = NaN, fuel_mark = NaN,
      period = to_period_M \<lparr>year = y, month = m, day = d, second_of_day = 0\<rparr>\<rparr>"

text \<open>
  The two-row January scenario of the specification, a table whose February has no row
  with a positive bonus, a table of two months, a table with a bonus on a sale of no
  liters, and a table without any positive bonus.
\<close>

definition january_scenario :: "cleaned_row list" where
  "january_scenario = [sale 2024 1 10 10 0 5, sale 2024 1 20 0 (- 2) 3]"


definition two_months :: "cleaned_row list" where
  "two_months = [sale 2024 2 5 5 0 5, sale 2024 1 10 10 0 5, sale 2024 1 20 0 (- 2) 3]"

definition bonus_without_liters :: "cleaned_row list" where
  "bonus_without_liters = [sale 2024 3 1 5 0 0, sale 2024 4 1 6 0 3]"

definition no_positive_bonus :: "cleaned_row list" where
  "no_positive_bonus = [sale 2024 2 5 0 0 3]"

text \<open>
  The arithmetic on values for which float64 is exact, as it is on the small numbers of
  the sample tables. \<open>None\<close> is a value that is not a finite number: NaN, which
  \<open>fillna(0)\<close> replaces, and the result of a division by zero.
\<close>

definition exact_arith :: "rat option arith" where
  "exact_arith =
     \<lparr>col_sum = (\<lambda>cells. Some (sum_list cells)),
      report_sum = (\<lambda>vs. if None \<in> set vs then None else Some (sum_list (map the vs))),
      zero_val = Some 0,
      fillna0 = (\<lambda>v. case v of None \<Rightarrow> Some 0 | Some x \<Rightarrow> Some x),
      nonzero = (\<lambda>v. v \<noteq> Some 0),
      abs_val = map_option abs,
      true_div = (\<lambda>a b. case a of None \<Rightarrow> None
                  | Some x \<Rightarrow> (case b of None \<Rightarrow> None
                      | Some y \<Rightarrow> if y = 0 then None else Some (x / y)))\<rparr>"

text \<open>
  A library behaviour for the sample tables below, whose texts are neither numbers nor
  dates: only what is typed already is recognised.
\<close>

definition strict_pandas :: pandas where
  "strict_pandas =
     \<lparr>coerce_numeric = (\<lambda>c. None),
      to_datetime = (\<lambda>c. case c of Stamp t \<Rightarrow> Some t | _ \<Rightarrow> None),
      astype_str = (\<lambda>c. case c of Text s \<Rightarrow> s | _ \<Rightarrow> []),
      sum_prints = (\<lambda>cells. False)\<rparr>"

definition all_columns :: "string list" where
  "all_columns =
     [''date'', ''bonus_plus'', ''bonus_minus'', ''liters'', ''reason'', ''azs_number'',
      ''fuel_mark'']"

text \<open>A loaded row of 10 January 2024 with a fuel mark and a station number.\<close>

definition fuel_row :: "rat \<Rightarrow> rat \<Rightarrow> raw_row" where
  "fuel_row mark azs =
     \<lparr>date = Stamp \<lparr>year = 2024, month = 1, day = 10, second_of_day = 0\<rparr>,
      bonus_plus = Num 5, bonus_minus = Num 0, liters = Num 1, reason = Text [],
      azs_number = Num azs, fuel_mark = Num mark\<rparr>"

text \<open>A loaded row with the given date cell and amounts, without codes.\<close>

definition loaded :: "cell \<Rightarrow> cell \<Rightarrow> cell \<Rightarrow> cell \<Rightarrow> raw_row" where
  "loaded d bp bm l =
     \<lparr>date = d, bonus_plus = bp, bonus_minus = bm, liters = l, reason = Text [],
      azs_number = NaN, fuel_mark = NaN\<rparr>"

definition mixed_marks :: frame where
  "mixed_marks = \<lparr>columns = all_columns, rows = [fuel_row 14 1, fuel_row 15 1118, fuel_row 15 2]\<rparr>"

definition only_mark_14 :: frame where
  "only_mark_14 = \<lparr>columns = all_columns, rows = [fuel_row 14 1]\<rparr>"

definition empty_table :: frame where
  "empty_table = \<lparr>columns = all_columns, rows = []\<rparr>"

definition loaded_january :: frame where
  "loaded_january =
     \<lparr>columns = all_columns,
      rows = [loaded (Stamp \<lparr>year = 2024, month = 1, day = 10, second_of_day = 0\<rparr>)
                (Num 10) (Num 0) (Num 5),
              loaded (Stamp \<lparr>year = 2024, month = 1, day = 20, second_of_day = 0\<rparr>)
                (Num 0) (Num (- 2)) (Num 3)]\<rparr>"

text \<open>A table whose only row has a text that is no date.\<close>

definition undated_table :: frame where
  "undated_table =
     \<lparr>columns = all_columns,
      rows = [loaded (Text (ascii ''n/a'')) (Num 10) (Num 0) (Num 5)]\<rparr>"

definition exclude_14_and_1118 :: config where
  "exclude_14_and_1118 =
     \<lparr>ENABLE_FILTERING = True, EXCLUDE_FUEL_MARKS = [14], EXCLUDE_AZS = [1118]\<rparr>"

definition exclude_14 :: config where
  "exclude_14 = \<lparr>ENABLE_FILTERING = True, EXCLUDE_FUEL_MARKS = [14], EXCLUDE_AZS = []\<rparr>"

definition no_exclusions :: config where
  "no_exclusions = \<lparr>ENABLE_FILTERING = True, EXCLUDE_FUEL_MARKS = [], EXCLUDE_AZS = []\<rparr>"

definition filtering_disabled :: config where
  "filtering_disabled =
     \<lparr>ENABLE_FILTERING = False, EXCLUDE_FUEL_MARKS = [14], EXCLUDE_AZS = [1118]\<rparr>"

text \<open>
  A report row with a given label, and the report of the 24 months from January 2024 to
  December 2025, with their labels in the fallback locale.
\<close>

definition labelled :: "pystr \<Rightarrow> (pystr, rat option) report_row" where
  "labelled l =
     \<lparr>period_label = l, bonus_accrued = Some 1, liters_with_bonus = Some 1,
      liters_total = Some 1, bonus_redeemed = Some 0, rate_per_liter = Some 1\<rparr>"

text \<open>A total row of \<open>old/report_final.py\<close>.\<close>

definition total_of_one :: "rat option final_row" where
  "total_of_one =
     \<lparr>period_label = Some ITOGO, bonus_accrued = Some 1, liters_with_bonus = Some 1,
      liters_total = Some 1, bonus_redeemed = Some 0, rate_per_liter = Some 1,
      period_column = None\<rparr>"

definition months_2024_2025 :: "timestamp list" where
  "months_2024_2025 =
     concat (map (\<lambda>y. map (\<lambda>m. \<lparr>year = y, month = m, day = 1, second_of_day = 0\<rparr>)
                          [1, 2, 3, 4, 5, 6, 7, 8, 9, 10, 11, 12])
               [2024, 2025])"

definition report_2024_2025 :: "(pystr, rat option) report_row list" where
  "report_2024_2025 = map (\<lambda>t. labelled (strftime_BY_C t)) months_2024_2025"

section \<open>Notions used in the proofs\<close>

text \<open>
  A row is settled for an exclusion rule when the rule would neither change its cell nor
  remove the row. \<open>stats0\<close> is the statistics object before the first rule.
\<close>

definition settled :: "pandas \<Rightarrow> (raw_row \<Rightarrow> cell) \<Rightarrow> rat list \<Rightarrow> raw_row \<Rightarrow> bool" where
  "settled pd get exclude r \<longleftrightarrow> to_numeric pd (get r) = get r \<and> \<not> isin (get r) exclude"

definition stats0 :: "frame \<Rightarrow> stats" where
  "stats0 df = [''filtered_rows'' \<mapsto> 0, ''filtered_fuel'' \<mapsto> 0, ''filtered_azs'' \<mapsto> 0,
                ''initial_count'' \<mapsto> int (length (rows df))]"

text \<open>
  A period row of \<open>report.py\<close> as \<open>old/report_final.py\<close> holds it: the label in the
  column \<open>period\<close>, NaN in the label column.
\<close>

definition period_row_final :: "(pystr, 'v) report_row \<Rightarrow> 'v final_row" where
  "period_row_final r =
     \<lparr>period_label = None,
      bonus_accrued = bonus_accrued r,
      liters_with_bonus = liters_with_bonus r,
      liters_total = liters_total r,
      bonus_redeemed = bonus_redeemed r,
      rate_per_liter = rate_per_liter r,
      period_column = Some (period_label r)\<rparr>"


lemmas filter_defs =
  apply_filters_def exclusion_rule_def excluded_summary_prints_def sum_formats_def
  is_number_def isin_def to_numeric_def strict_pandas_def all_columns_def fuel_row_def
  loaded_def Let_def

lemmas aggregator_defs =
  calculate_report_def calculate_report_final_def groupby_sum_def group_keys_def
  report_index_def aligned_def sale_def to_period_M_def ts_key_def rate_lambda_def
  exact_arith_def strftime_BY_C_def month_name_C_def ascii_def digits.simps Let_def
  ITOGO_def

section \<open>Properties of the Aggregator\<close>











lemma calculate_report_final_eq:
  "calculate_report_final ar fmt df =
     map period_row_final (calculate_report ar fmt df) @
       [\<lparr>period_label = Some ITOGO,
         bonus_accrued = report_sum ar (map bonus_accrued (calculate_report ar fmt df)),
         liters_with_bonus = report_sum ar (map liters_with_bonus (calculate_report ar fmt df)),
         liters_total = report_sum ar (map liters_total (calculate_report ar fmt df)),
         bonus_redeemed = report_sum ar (map bonus_redeemed (calculate_report ar fmt df)),
         rate_per_liter =
           rate_lambda ar (report_sum ar (map bonus_accrued (calculate_report ar fmt df)))
             (report_sum ar (map liters_with_bonus (calculate_report ar fmt df))),
         period_column = None\<rparr>]"
  by (simp add: calculate_report_final_def calculate_report_def Let_def period_row_final_def
      comp_def)

lemma period_labels_report:
  "map period_label (calculate_report ar fmt df) = map fmt (report_index df)"
  by (simp add: calculate_report_def Let_def comp_def)

lemma period_columns_report:
  "map (\<lambda>r. Some (period_label r)) (calculate_report ar fmt df) =
     map (\<lambda>k. Some (fmt k)) (report_index df)"
  by (simp add: calculate_report_def Let_def comp_def)

text \<open>The reports of the sample tables.\<close>

lemma january_report:
  "calculate_report exact_arith strftime_BY_C january_scenario =
     [\<lparr>period_label = ascii ''January 2024'', bonus_accrued = Some 10,
       liters_with_bonus = Some 5, liters_total = Some 8, bonus_redeemed = Some 2,
       rate_per_liter = Some 2\<rparr>]"
  by (simp add: aggregator_defs january_scenario_def)

lemma two_months_report:
  "calculate_report exact_arith strftime_BY_C two_months =
     [\<lparr>period_label = ascii ''January 2024'', bonus_accrued = Some 10,
       liters_with_bonus = Some 5, liters_total = Some 8, bonus_redeemed = Some 2,
       rate_per_liter = Some 2\<rparr>,
      \<lparr>period_label = ascii ''February 2024'', bonus_accrued = Some 5,
       liters_with_bonus = Some 5, liters_total = Some 5, bonus_redeemed = Some 0,
       rate_per_liter = Some 1\<rparr>]"
  by (simp add: aggregator_defs two_months_def)


lemma bonus_without_liters_report:
  "calculate_report exact_arith strftime_BY_C bonus_without_liters =
     [\<lparr>period_label = ascii ''March 2024'', bonus_accrued = Some 5,
       liters_with_bonus = Some 0, liters_total = Some 0, bonus_redeemed = Some 0,
       rate_per_liter = Some 0\<rparr>,
      \<lparr>period_label = ascii ''April 2024'', bonus_accrued = Some 6,
       liters_with_bonus = Some 3, liters_total = Some 3, bonus_redeemed = Some 0,
       rate_per_liter = Some 2\<rparr>]"
  by (simp add: aggregator_defs bonus_without_liters_def)

lemma no_positive_bonus_report:
  "calculate_report exact_arith strftime_BY_C no_positive_bonus =
     [\<lparr>period_label = ascii ''February 2024'', bonus_accrued = Some 0,
       liters_with_bonus = Some 0, liters_total = Some 3, bonus_redeemed = Some 0,
       rate_per_liter = Some 0\<rparr>]"
  by (simp add: aggregator_defs no_positive_bonus_def)


lemma two_months_report_final:
  "calculate_report_final exact_arith strftime_BY_C two_months =
     [\<lparr>period_label = None, bonus_accrued = Some 10, liters_with_bonus = Some 5,
       liters_total = Some 8, bonus_redeemed = Some 2, rate_per_liter = Some 2,
       period_column = Some (ascii ''January 2024'')\<rparr>,
      \<lparr>period_label = None, bonus_accrued = Some 5, liters_with_bonus = Some 5,
       liters_total = Some 5, bonus_redeemed = Some 0, rate_per_liter = Some 1,
       period_column = Some (ascii ''February 2024'')\<rparr>,
      \<lparr>period_label = Some ITOGO, bonus_accrued = Some 15, liters_with_bonus = Some 10,
       liters_total = Some 13, bonus_redeemed = Some 2, rate_per_liter = Some (3 / 2),
       period_column = None\<rparr>]"
  by (simp add: calculate_report_final_eq two_months_report period_row_final_def)
     (simp add: exact_arith_def rate_lambda_def)

text \<open>
  C9. Every row of the Aggregator's output (the period rows of both variants, among them
  the rows of a table without any positive bonus, and the total row of
  \<open>old/report_final.py\<close>) has \<open>rate_per_liter\<close> equal to its \<open>bonus_accrued\<close> divided by
  its \<open>liters_with_bonus\<close> when \<open>liters_with_bonus\<close> is not zero, and equal to the literal
  0 when it is zero: the division is never asked for a zero divisor, whatever the
  arithmetic of the columns computes.
\<close>

theorem rate_per_liter_guarded:
  "(\<forall>r \<in> set (calculate_report ar fmt df).
      rate_per_liter r =
        (if nonzero ar (liters_with_bonus r)
         then true_div ar (bonus_accrued r) (liters_with_bonus r) else zero_val ar))
   \<and> (\<forall>r \<in> set (calculate_report_final ar fmt df).
      rate_per_liter r =
        (if nonzero ar (liters_with_bonus r)
         then true_div ar (bonus_accrued r) (liters_with_bonus r) else zero_val ar))"
proof -
  have p: "\<forall>r \<in> set (calculate_report ar fmt df).
      rate_per_liter r =
        (if nonzero ar (liters_with_bonus r)
         then true_div ar (bonus_accrued r) (liters_with_bonus r) else zero_val ar)"
    by (auto simp: calculate_report_def Let_def rate_lambda_def)
  then show ?thesis
    by (auto simp: calculate_report_final_eq period_row_final_def rate_lambda_def)
qed

theorem rate_per_liter_guarded_witness:
  "map rate_per_liter (calculate_report exact_arith strftime_BY_C bonus_without_liters) =
     [Some 0, Some 2]
   \<and> map liters_with_bonus (calculate_report exact_arith strftime_BY_C bonus_without_liters) =
     [Some 0, Some 3]
   \<and> map bonus_accrued (calculate_report exact_arith strftime_BY_C bonus_without_liters) =
     [Some 5, Some 6]
   \<and> true_div exact_arith (Some 5) (Some 0) = None
   \<and> map rate_per_liter (calculate_report exact_arith strftime_BY_C no_positive_bonus) = [Some 0]"
  using rate_per_liter_guarded [of exact_arith strftime_BY_C bonus_without_liters]
  by (simp add: bonus_without_liters_report no_positive_bonus_report)
     (simp add: exact_arith_def)





text \<open>
  C2, as the code has it. The Aggregator of \<open>old/report_final.py\<close> returns, for every
  cleaned table, the period rows followed by exactly one total row: the label column holds
  the sentinel in the total row and nothing in a period row, each of the four sums of the
  total row is the sum of the column over the period rows, and its rate is its accrued
  bonus divided by its liters with bonus when these are not zero, else 0. The Aggregator
  of \<open>report.py\<close> appends no total row: its rows are the rows of the reported periods,
  each labelled with its period.
\<close>

theorem total_row_final:
  "calculate_report_final ar fmt df =
     map period_row_final (calculate_report ar fmt df) @ [last (calculate_report_final ar fmt df)]
   \<and> period_label (last (calculate_report_final ar fmt df)) = Some ITOGO
   \<and> list_all (\<lambda>r. period_label r = None) (butlast (calculate_report_final ar fmt df))
   \<and> bonus_accrued (last (calculate_report_final ar fmt df)) =
       report_sum ar (map bonus_accrued (butlast (calculate_report_final ar fmt df)))
   \<and> liters_with_bonus (last (calculate_report_final ar fmt df)) =
       report_sum ar (map liters_with_bonus (butlast (calculate_report_final ar fmt df)))
   \<and> liters_total (last (calculate_report_final ar fmt df)) =
       report_sum ar (map liters_total (butlast (calculate_report_final ar fmt df)))
   \<and> bonus_redeemed (last (calculate_report_final ar fmt df)) =
       report_sum ar (map bonus_redeemed (butlast (calculate_report_final ar fmt df)))
   \<and> rate_per_liter (last (calculate_report_final ar fmt df)) =
       (if nonzero ar (liters_with_bonus (last (calculate_report_final ar fmt df)))
        then true_div ar (bonus_accrued (last (calculate_report_final ar fmt df)))
               (liters_with_bonus (last (calculate_report_final ar fmt df)))
        else zero_val ar)
   \<and> map period_column (butlast (calculate_report_final ar fmt df)) =
       map (\<lambda>k. Some (fmt k)) (report_index df)
   \<and> map period_label (calculate_report ar fmt df) = map fmt (report_index df)"
  by (simp add: calculate_report_final_eq period_labels_report period_columns_report
      rate_lambda_def period_row_final_def comp_def list_all_iff)

theorem total_row_final_witness:
  "last (calculate_report_final exact_arith strftime_BY_C two_months) =
     \<lparr>period_label = Some ITOGO, bonus_accrued = Some 15, liters_with_bonus = Some 10,
      liters_total = Some 13, bonus_redeemed = Some 2, rate_per_liter = Some (3 / 2),
      period_column = None\<rparr>
   \<and> map rate_per_liter (butlast (calculate_report_final exact_arith strftime_BY_C two_months)) =
       [Some 2, Some 1]
   \<and> map period_column (butlast (calculate_report_final exact_arith strftime_BY_C two_months)) =
       [Some (ascii ''January 2024''), Some (ascii ''February 2024'')]"
  using total_row_final [of exact_arith strftime_BY_C two_months]
  by (simp add: two_months_report_final)

text \<open>
  C2 as stated fails for \<open>report.py\<close>, whose Aggregator appends no total row: for the
  January scenario the output is the single January row.
\<close>

theorem total_row_counterexample:
  "calculate_report exact_arith strftime_BY_C january_scenario =
     [\<lparr>period_label = ascii ''January 2024'', bonus_accrued = Some 10,
       liters_with_bonus = Some 5, liters_total = Some 8, bonus_redeemed = Some 2,
       rate_per_liter = Some 2\<rparr>]
   \<and> ascii ''January 2024'' \<noteq> ITOGO"
  by (simp add: january_report) (simp add: ascii_def ITOGO_def)


section \<open>Properties of the Filter Engine\<close>

lemma to_numeric_idem: "to_numeric pd (to_numeric pd c) = to_numeric pd c"
  by (cases c) (auto simp: to_numeric_def split: option.splits)

lemma length_filter_split:
  "int (length xs) - int (length (filter (\<lambda>r. \<not> P r) xs)) = int (length (filter P xs))"
  using sum_length_filter_compl [of P xs] by simp

lemma exclusion_rule_cases:
  assumes "exclusion_rule pd col stat get upd exclude (df, st) = Inr (df', st')"
  shows "(df' = df \<and> st' = st \<and> \<not> (exclude \<noteq> [] \<and> col \<in> set (columns df)))
       \<or> (exclude \<noteq> [] \<and> col \<in> set (columns df)
          \<and> df' = df\<lparr>rows := filter (\<lambda>r. \<not> isin (get r) exclude) (map (upd (to_numeric pd)) (rows df))\<rparr>
          \<and> st' = st(stat \<mapsto> int (length (rows df)) - int (length (rows df'))))"
proof (cases "exclude \<noteq> [] \<and> col \<in> set (columns df)")
  case False
  with assms show ?thesis by (auto simp: exclusion_rule_def Let_def)
next
  case True
  define coerced where "coerced = map (upd (to_numeric pd)) (rows df)"
  have n: "int (length (filter (\<lambda>r. isin (get r) exclude) coerced)) =
           int (length (rows df)) - int (length (filter (\<lambda>r. \<not> isin (get r) exclude) coerced))"
    using length_filter_split [of coerced "\<lambda>r. isin (get r) exclude"]
    by (simp add: coerced_def)
  from assms True have
    "df' = df\<lparr>rows := filter (\<lambda>r. \<not> isin (get r) exclude) coerced\<rparr>"
    "st' = st(stat \<mapsto> int (length (filter (\<lambda>r. isin (get r) exclude) coerced)))"
    unfolding exclusion_rule_def Let_def coerced_def
    by (simp_all split: if_splits del: filter_map)
  with True n show ?thesis by (simp add: coerced_def del: filter_map)
qed

lemma exclusion_rule_settles:
  assumes "exclusion_rule pd col stat get upd exclude (df, st) = Inr (df', st')"
    and "exclude \<noteq> [] \<and> col \<in> set (columns df)"
    and "\<And>f r. get (upd f r) = f (get r)"
  shows "\<forall>r \<in> set (rows df'). settled pd get exclude r"
  using exclusion_rule_cases [OF assms(1)] assms(2,3)
  by (auto simp: settled_def to_numeric_idem)

lemma exclusion_rule_keeps_settled:
  assumes "exclusion_rule pd col stat get upd exclude (df, st) = Inr (df', st')"
    and "\<forall>r \<in> set (rows df). settled pd get' exclude' r"
    and "\<And>f r. get' (upd f r) = get' r"
  shows "\<forall>r \<in> set (rows df'). settled pd get' exclude' r"
  using exclusion_rule_cases [OF assms(1)] assms(2,3)
  by (auto simp: settled_def)

lemma exclusion_rule_noop:
  assumes "\<not> (exclude \<noteq> [] \<and> col \<in> set (columns df)) \<or> (\<forall>r \<in> set (rows df). settled pd get exclude r)"
    and "\<And>f r. f (get r) = get r \<Longrightarrow> upd f r = r"
    and "\<And>f r. get (upd f r) = f (get r)"
  shows "exclusion_rule pd col stat get upd exclude (df, st) = Inr (df, st)
       \<or> exclusion_rule pd col stat get upd exclude (df, st) = Inr (df, st(stat \<mapsto> 0))"
proof (cases "exclude \<noteq> [] \<and> col \<in> set (columns df)")
  case False
  then show ?thesis by (auto simp: exclusion_rule_def Let_def)
next
  case True
  with assms(1) have s: "\<forall>r \<in> set (rows df). settled pd get exclude r" by blast
  have m: "map (upd (to_numeric pd)) (rows df) = rows df"
    using s assms(2) by (intro map_idI) (auto simp: settled_def)
  have f: "filter (\<lambda>r. isin (get r) exclude) (rows df) = []"
    using s by (auto simp: settled_def filter_empty_conv)
  have g: "filter (\<lambda>r. \<not> isin (get r) exclude) (rows df) = rows df"
    using s by (auto simp: settled_def filter_id_conv)
  show ?thesis
    using True by (simp add: exclusion_rule_def Let_def m f g)
qed


lemma apply_filters_enabled:
  assumes "ENABLE_FILTERING config" and "apply_filters pd config df = Inr (out, st)"
  shows "\<exists>df1 st1 st2.
      exclusion_rule pd ''fuel_mark'' ''filtered_fuel'' fuel_mark fuel_mark_update
        (EXCLUDE_FUEL_MARKS config) (df, stats0 df) = Inr (df1, st1)
    \<and> exclusion_rule pd ''azs_number'' ''filtered_azs'' azs_number azs_number_update
        (EXCLUDE_AZS config) (df1, st1) = Inr (out, st2)
    \<and> st = st2(''filtered_rows'' \<mapsto> int (length (rows df)) - int (length (rows out)))
    \<and> rows df \<noteq> []"
  using assms unfolding apply_filters_def Let_def stats0_def
  by (auto split: sum.splits if_splits)

lemma apply_filters_enabledI:
  assumes "ENABLE_FILTERING config" and "rows df \<noteq> []"
    and "exclusion_rule pd ''fuel_mark'' ''filtered_fuel'' fuel_mark fuel_mark_update
        (EXCLUDE_FUEL_MARKS config) (df, stats0 df) = Inr (df1, st1)"
    and "exclusion_rule pd ''azs_number'' ''filtered_azs'' azs_number azs_number_update
        (EXCLUDE_AZS config) (df1, st1) = Inr (out, st2)"
  shows "apply_filters pd config df =
     Inr (out, st2(''filtered_rows'' \<mapsto> int (length (rows df)) - int (length (rows out))))"
  using assms unfolding apply_filters_def Let_def stats0_def
  by simp

lemma stats_account_when_returned:
  assumes "ENABLE_FILTERING config" and "apply_filters pd config df = Inr (out, st)"
  shows "\<exists>fuel azs.
      st ''filtered_fuel'' = Some fuel \<and> st ''filtered_azs'' = Some azs
    \<and> st ''filtered_rows'' = Some (fuel + azs)
    \<and> st ''initial_count'' = Some (int (length (rows df)))
    \<and> fuel + azs = int (length (rows df)) - int (length (rows out))"
proof -
  from apply_filters_enabled [OF assms] obtain df1 st1 st2 where
    r1: "exclusion_rule pd ''fuel_mark'' ''filtered_fuel'' fuel_mark fuel_mark_update
        (EXCLUDE_FUEL_MARKS config) (df, stats0 df) = Inr (df1, st1)"
    and r2: "exclusion_rule pd ''azs_number'' ''filtered_azs'' azs_number azs_number_update
        (EXCLUDE_AZS config) (df1, st1) = Inr (out, st2)"
    and st: "st = st2(''filtered_rows'' \<mapsto> int (length (rows df)) - int (length (rows out)))"
    by blast
  have s1: "st1 ''filtered_fuel'' = Some (int (length (rows df)) - int (length (rows df1)))
          \<and> st1 ''filtered_azs'' = Some 0
          \<and> st1 ''initial_count'' = Some (int (length (rows df)))"
    using exclusion_rule_cases [OF r1] by (auto simp: stats0_def)
  have s2: "st2 ''filtered_fuel'' = st1 ''filtered_fuel''
          \<and> st2 ''filtered_azs'' = Some (int (length (rows df1)) - int (length (rows out)))
          \<and> st2 ''initial_count'' = st1 ''initial_count''"
    using exclusion_rule_cases [OF r2] s1 by auto
  show ?thesis
    using s1 s2 by (simp add: st)
qed


lemma exclusion_rule_columns:
  assumes "exclusion_rule pd col stat get upd exclude (df, st) = Inr (df', st')"
  shows "columns df' = columns df"
  using exclusion_rule_cases [OF assms] by auto

lemma exclusion_rule_returns:
  assumes "\<forall>r \<in> set (rows df). is_number (bonus_plus r) \<and> is_number (liters r)"
    and "''bonus_plus'' \<in> set (columns df) \<and> ''liters'' \<in> set (columns df)"
    and "\<And>f r. bonus_plus (upd f r) = bonus_plus r"
    and "\<And>f r. liters (upd f r) = liters r"
  shows "\<exists>df' st'. exclusion_rule pd col stat get upd exclude (df, st) = Inr (df', st')
           \<and> (\<forall>r \<in> set (rows df'). is_number (bonus_plus r) \<and> is_number (liters r))
           \<and> columns df' = columns df"
proof -
  have "excluded_summary_prints pd get exclude (df\<lparr>rows := map (upd (to_numeric pd)) (rows df)\<rparr>)"
    using assms
    by (auto simp: excluded_summary_prints_def sum_formats_def list_all_iff Let_def)
  then show ?thesis
    using assms by (auto simp: exclusion_rule_def Let_def)
qed

lemma apply_filters_returns:
  assumes "ENABLE_FILTERING config" and "rows df \<noteq> []"
    and "\<forall>r \<in> set (rows df). is_number (bonus_plus r) \<and> is_number (liters r)"
    and "''bonus_plus'' \<in> set (columns df) \<and> ''liters'' \<in> set (columns df)"
  shows "\<exists>out st. apply_filters pd config df = Inr (out, st)"
proof -
  from exclusion_rule_returns [OF assms(3,4), of fuel_mark_update pd "''fuel_mark''"
      "''filtered_fuel''" fuel_mark "EXCLUDE_FUEL_MARKS config" "stats0 df"]
  obtain df1 st1 where
    r1: "exclusion_rule pd ''fuel_mark'' ''filtered_fuel'' fuel_mark fuel_mark_update
        (EXCLUDE_FUEL_MARKS config) (df, stats0 df) = Inr (df1, st1)"
    and n1: "\<forall>r \<in> set (rows df1). is_number (bonus_plus r) \<and> is_number (liters r)"
    and c1: "columns df1 = columns df"
    by auto
  from assms(4) c1 have k1: "''bonus_plus'' \<in> set (columns df1) \<and> ''liters'' \<in> set (columns df1)"
    by simp
  from exclusion_rule_returns [OF n1 k1, of azs_number_update pd "''azs_number''"
      "''filtered_azs''" azs_number "EXCLUDE_AZS config" st1]
  obtain out st2 where
    r2: "exclusion_rule pd ''azs_number'' ''filtered_azs'' azs_number azs_number_update
        (EXCLUDE_AZS config) (df1, st1) = Inr (out, st2)"
    by auto
  show ?thesis
    using apply_filters_enabledI [OF assms(1,2) r1 r2] by blast
qed

lemma mixed_marks_filtered:
  "apply_filters strict_pandas exclude_14_and_1118 mixed_marks =
     Inr (\<lparr>columns = all_columns, rows = [fuel_row 15 2]\<rparr>,
          [''filtered_rows'' \<mapsto> 2, ''filtered_fuel'' \<mapsto> 1, ''filtered_azs'' \<mapsto> 1,
           ''initial_count'' \<mapsto> 3])"
  by (auto simp: filter_defs mixed_marks_def exclude_14_and_1118_def)

lemma only_mark_14_filtered:
  "apply_filters strict_pandas exclude_14 only_mark_14 =
     Inr (empty_table,
          [''filtered_rows'' \<mapsto> 1, ''filtered_fuel'' \<mapsto> 1, ''filtered_azs'' \<mapsto> 0,
           ''initial_count'' \<mapsto> 1])"
  by (auto simp: filter_defs only_mark_14_def exclude_14_def empty_table_def)


text \<open>
  C3, as the code has it. With the enable flag false the Filter Engine returns the input
  table unchanged, with a statistics object that has exactly the three keys
  \<open>filtered_rows\<close>, \<open>filtered_fuel\<close> and \<open>filtered_azs\<close>, all zero; it has no key
  \<open>initial_count\<close>.
\<close>

theorem disabled_filter_unchanged:
  assumes "\<not> ENABLE_FILTERING config"
  shows "\<exists>st. apply_filters pd config df = Inr (df, st)
    \<and> dom st = {''filtered_rows'', ''filtered_fuel'', ''filtered_azs''}
    \<and> st ''filtered_rows'' = Some 0 \<and> st ''filtered_fuel'' = Some 0
    \<and> st ''filtered_azs'' = Some 0"
  using assms by (auto simp: apply_filters_def split: if_splits)

theorem disabled_filter_unchanged_witness:
  "\<not> ENABLE_FILTERING filtering_disabled
   \<and> (\<exists>st. apply_filters strict_pandas filtering_disabled mixed_marks = Inr (mixed_marks, st)
        \<and> dom st = {''filtered_rows'', ''filtered_fuel'', ''filtered_azs''})"
proof -
  have h: "\<not> ENABLE_FILTERING filtering_disabled"
    by (simp add: filtering_disabled_def)
  show ?thesis
    using h disabled_filter_unchanged [OF h, of strict_pandas mixed_marks] by blast
qed

text \<open>
  C3 as stated fails: the statistics of a run with filtering disabled have no
  \<open>initial_count\<close>, although the table has three rows.
\<close>

theorem disabled_filter_counterexample:
  "apply_filters strict_pandas filtering_disabled mixed_marks =
     Inr (mixed_marks,
          [''filtered_rows'' \<mapsto> 0, ''filtered_fuel'' \<mapsto> 0, ''filtered_azs'' \<mapsto> 0])
   \<and> [''filtered_rows'' \<mapsto> (0::int), ''filtered_fuel'' \<mapsto> 0, ''filtered_azs'' \<mapsto> 0]
       ''initial_count'' = None"
  by (simp add: apply_filters_def filtering_disabled_def)

text \<open>
  A second run of the Filter Engine. When the first run has returned a table, and that
  table has at least one row or filtering is disabled, a second run with the same
  configuration returns the same table and counts no removed row.
\<close>

lemma second_run_when_rows_remain:
  assumes "apply_filters pd config df = Inr (out, st)"
    and "\<not> ENABLE_FILTERING config \<or> rows out \<noteq> []"
  shows "\<exists>st'. apply_filters pd config out = Inr (out, st') \<and> st' ''filtered_rows'' = Some 0"
proof (cases "ENABLE_FILTERING config")
  case False
  then show ?thesis by (simp add: apply_filters_def)
next
  case True
  with assms(2) have ne: "rows out \<noteq> []" by simp
  from apply_filters_enabled [OF True assms(1)] obtain df1 st1 st2 where
    r1: "exclusion_rule pd ''fuel_mark'' ''filtered_fuel'' fuel_mark fuel_mark_update
        (EXCLUDE_FUEL_MARKS config) (df, stats0 df) = Inr (df1, st1)"
    and r2: "exclusion_rule pd ''azs_number'' ''filtered_azs'' azs_number azs_number_update
        (EXCLUDE_AZS config) (df1, st1) = Inr (out, st2)"
    by blast
  have c1: "columns df1 = columns df" and c2: "columns out = columns df1"
    using exclusion_rule_columns [OF r1] exclusion_rule_columns [OF r2] by simp_all
  have fuel: "\<not> (EXCLUDE_FUEL_MARKS config \<noteq> [] \<and> ''fuel_mark'' \<in> set (columns out))
      \<or> (\<forall>r \<in> set (rows out). settled pd fuel_mark (EXCLUDE_FUEL_MARKS config) r)"
  proof (cases "EXCLUDE_FUEL_MARKS config \<noteq> [] \<and> ''fuel_mark'' \<in> set (columns df)")
    case False
    then show ?thesis by (simp add: c1 c2)
  next
    case active: True
    have "\<forall>r \<in> set (rows df1). settled pd fuel_mark (EXCLUDE_FUEL_MARKS config) r"
      by (rule exclusion_rule_settles [OF r1 active]) simp
    then have "\<forall>r \<in> set (rows out). settled pd fuel_mark (EXCLUDE_FUEL_MARKS config) r"
      by (rule exclusion_rule_keeps_settled [OF r2]) simp
    then show ?thesis by simp
  qed
  have azs: "\<not> (EXCLUDE_AZS config \<noteq> [] \<and> ''azs_number'' \<in> set (columns out))
      \<or> (\<forall>r \<in> set (rows out). settled pd azs_number (EXCLUDE_AZS config) r)"
  proof (cases "EXCLUDE_AZS config \<noteq> [] \<and> ''azs_number'' \<in> set (columns df1)")
    case False
    then show ?thesis by (simp add: c2)
  next
    case active: True
    have "\<forall>r \<in> set (rows out). settled pd azs_number (EXCLUDE_AZS config) r"
      by (rule exclusion_rule_settles [OF r2 active]) simp
    then show ?thesis by simp
  qed
  from exclusion_rule_noop [OF fuel, of fuel_mark_update "''filtered_fuel''" "stats0 out"]
  obtain s1 where n1: "exclusion_rule pd ''fuel_mark'' ''filtered_fuel'' fuel_mark fuel_mark_update
        (EXCLUDE_FUEL_MARKS config) (out, stats0 out) = Inr (out, s1)"
    by auto
  from exclusion_rule_noop [OF azs, of azs_number_update "''filtered_azs''" s1]
  obtain s2 where n2: "exclusion_rule pd ''azs_number'' ''filtered_azs'' azs_number azs_number_update
        (EXCLUDE_AZS config) (out, s1) = Inr (out, s2)"
    by auto
  show ?thesis
    using apply_filters_enabledI [OF True ne n1 n2] by simp
qed

lemma mixed_marks_second_run:
  "\<exists>st'. apply_filters strict_pandas exclude_14_and_1118
            \<lparr>columns = all_columns, rows = [fuel_row 15 2]\<rparr> =
          Inr (\<lparr>columns = all_columns, rows = [fuel_row 15 2]\<rparr>, st')
        \<and> st' ''filtered_rows'' = Some 0"
  using second_run_when_rows_remain [OF mixed_marks_filtered] by simp

text \<open>
  On a table without rows the Filter Engine with filtering enabled does not return: the
  percentage of removed rows that it prints divides by the row count.
\<close>

lemma apply_filters_without_rows:
  assumes "ENABLE_FILTERING config" and "rows df = []"
  shows "apply_filters pd config df = Inl ZeroDivisionError"
  using assms by (simp add: apply_filters_def exclusion_rule_def Let_def)

text \<open>
  C7 at the table whose only row has the excluded fuel mark 14. The first run removes the
  row and returns the table without rows; the second run, with the same configuration on
  that table, removes nothing but does not return it: it raises ZeroDivisionError, where
  the claim has it return the same table.
\<close>

theorem filter_second_run_raises:
  "map_sum id fst (apply_filters strict_pandas exclude_14 only_mark_14) = Inr empty_table
   \<and> apply_filters strict_pandas exclude_14 empty_table = Inl ZeroDivisionError"
  by (simp add: only_mark_14_filtered)
     (simp add: apply_filters_def exclusion_rule_def Let_def exclude_14_def empty_table_def
        all_columns_def)

text \<open>
  C10. For every input table with the enable flag true, the statistics that the Filter
  Engine returns satisfy \<open>filtered_rows = filtered_fuel + filtered_azs\<close> and
  \<open>filtered_rows = initial_count - (rows of the returned table)\<close>, with \<open>initial_count\<close> the
  row count of the input. And it does return statistics for every table that has at
  least one row and whose columns \<open>bonus_plus\<close> and \<open>liters\<close> exist and hold numbers or
  missing cells.
\<close>

theorem filter_stats_account:
  assumes "ENABLE_FILTERING config"
  shows "(\<forall>out st. apply_filters pd config df = Inr (out, st) \<longrightarrow>
           (\<exists>fuel azs.
               st ''filtered_fuel'' = Some fuel \<and> st ''filtered_azs'' = Some azs
             \<and> st ''filtered_rows'' = Some (fuel + azs)
             \<and> st ''initial_count'' = Some (int (length (rows df)))
             \<and> fuel + azs = int (length (rows df)) - int (length (rows out))))
       \<and> (rows df \<noteq> []
            \<and> ''bonus_plus'' \<in> set (columns df) \<and> ''liters'' \<in> set (columns df)
            \<and> (\<forall>r \<in> set (rows df). is_number (bonus_plus r) \<and> is_number (liters r))
            \<longrightarrow> (\<exists>out st. apply_filters pd config df = Inr (out, st)))"
  using stats_account_when_returned [OF assms] apply_filters_returns [OF assms]
  by blast

theorem filter_stats_account_witness:
  "ENABLE_FILTERING exclude_14_and_1118
   \<and> rows mixed_marks \<noteq> []
   \<and> ''bonus_plus'' \<in> set (columns mixed_marks) \<and> ''liters'' \<in> set (columns mixed_marks)
   \<and> list_all (\<lambda>r. is_number (bonus_plus r) \<and> is_number (liters r)) (rows mixed_marks)
   \<and> (\<exists>out st fuel azs.
         apply_filters strict_pandas exclude_14_and_1118 mixed_marks = Inr (out, st)
       \<and> st ''filtered_fuel'' = Some fuel \<and> st ''filtered_azs'' = Some azs
       \<and> st ''filtered_rows'' = Some (fuel + azs)
       \<and> fuel + azs = 3 - int (length (rows out)))"
proof -
  have h: "ENABLE_FILTERING exclude_14_and_1118"
    by (simp add: exclude_14_and_1118_def)
  have n: "rows mixed_marks \<noteq> []"
    and m: "\<forall>r \<in> set (rows mixed_marks). is_number (bonus_plus r) \<and> is_number (liters r)"
    by (simp_all add: mixed_marks_def fuel_row_def is_number_def)
  have c: "''bonus_plus'' \<in> set (columns mixed_marks) \<and> ''liters'' \<in> set (columns mixed_marks)"
    by (simp add: mixed_marks_def all_columns_def)
  have l: "int (length (rows mixed_marks)) = 3"
    by (simp add: mixed_marks_def)
  from filter_stats_account [OF h, of strict_pandas mixed_marks] n m c
  obtain out st where r: "apply_filters strict_pandas exclude_14_and_1118 mixed_marks = Inr (out, st)"
    by blast
  with filter_stats_account [OF h, of strict_pandas mixed_marks] l
  have "\<exists>fuel azs. st ''filtered_fuel'' = Some fuel \<and> st ''filtered_azs'' = Some azs
       \<and> st ''filtered_rows'' = Some (fuel + azs)
       \<and> fuel + azs = 3 - int (length (rows out))"
    by auto
  with h n m c r show ?thesis by (auto simp: list_all_iff)
qed

section \<open>Properties of the Validator/Cleaner\<close>

lemma clean_rows_empty_iff:
  "clean_rows pd rs = [] \<longleftrightarrow> (\<forall>r \<in> set rs. to_datetime pd (date r) = None)"
  by (induction rs) (auto simp: clean_rows_def List.map_filter_simps split: option.splits)

lemma length_clean_rows:
  "length (clean_rows pd rs) = length (filter (\<lambda>r. to_datetime pd (date r) \<noteq> None) rs)"
  by (induction rs) (auto simp: clean_rows_def List.map_filter_simps split: option.splits)

lemma validate_with_required_columns:
  assumes "set [''date'', ''bonus_plus'', ''bonus_minus'', ''liters'', ''reason''] \<subseteq> set (columns df)"
  shows "validate_and_clean_data pd df =
     (if \<forall>r \<in> set (rows df). to_datetime pd (date r) = None then Inl ValueError
      else Inr (Some (clean_rows pd (rows df))))"
  using assms by (simp add: validate_and_clean_data_def clean_rows_empty_iff)

text \<open>
  C4 at the table whose only row has an unparseable date, with all required columns
  present. The row is dropped, and the date range printed for the cleaned table then
  raises: the Validator/Cleaner returns no table. With at least one parseable date it
  returns the cleaned table of exactly the rows with a parseable date
  (\<open>validate_with_required_columns\<close>, \<open>length_clean_rows\<close>).
\<close>

theorem validate_undated_raises:
  "validate_and_clean_data strict_pandas undated_table = Inl ValueError"
  by (simp add: validate_and_clean_data_def clean_rows_def List.map_filter_simps
      undated_table_def all_columns_def loaded_def strict_pandas_def)

section \<open>Properties of the run\<close>

lemma loaded_january_cleaned:
  "validate_and_clean_data strict_pandas loaded_january = Inr (Some january_scenario)"
  by (simp add: validate_and_clean_data_def clean_rows_def List.map_filter_simps
      loaded_january_def all_columns_def loaded_def strict_pandas_def january_scenario_def
      sale_def numeric_or_zero_def to_numeric_def strip_def)

lemma apply_filters_no_exclusions:
  "apply_filters pd \<lparr>ENABLE_FILTERING = True, EXCLUDE_FUEL_MARKS = [], EXCLUDE_AZS = []\<rparr> df =
     (if rows df = [] then Inl ZeroDivisionError
      else Inr (df, [''filtered_rows'' \<mapsto> 0, ''filtered_fuel'' \<mapsto> 0, ''filtered_azs'' \<mapsto> 0,
                     ''initial_count'' \<mapsto> int (length (rows df))]))"
  by (auto simp: apply_filters_def exclusion_rule_def Let_def)

lemma validate_empty:
  "rows df = [] \<Longrightarrow> validate_and_clean_data pd df = Inr None \<or> validate_and_clean_data pd df = Inl ValueError"
  by (simp add: validate_and_clean_data_def clean_rows_def List.map_filter_simps Let_def)

lemma apply_filters_disabled:
  "apply_filters pd \<lparr>ENABLE_FILTERING = False, EXCLUDE_FUEL_MARKS = marks, EXCLUDE_AZS = azs\<rparr> df =
     Inr (df, [''filtered_rows'' \<mapsto> 0, ''filtered_fuel'' \<mapsto> 0, ''filtered_azs'' \<mapsto> 0])"
  by (simp add: apply_filters_def)

text \<open>
  C8. For every loaded table, the run with filtering disabled (whatever its exclusion
  sets) and the run with filtering enabled and both exclusion sets empty compute the
  same report; when one run ends without a report, so does the other.
\<close>

theorem disabled_equals_no_exclusions:
  "aggregation_results pd ar fmt
     \<lparr>ENABLE_FILTERING = False, EXCLUDE_FUEL_MARKS = marks, EXCLUDE_AZS = azs\<rparr> df =
   aggregation_results pd ar fmt
     \<lparr>ENABLE_FILTERING = True, EXCLUDE_FUEL_MARKS = [], EXCLUDE_AZS = []\<rparr> df"
proof (cases "rows df = []")
  case True
  from validate_empty [OF True, of pd] show ?thesis
    by (auto simp: aggregation_results_def load_and_process_data_def apply_filters_no_exclusions
        True apply_filters_disabled)
next
  case False
  then show ?thesis
    by (simp add: aggregation_results_def load_and_process_data_def apply_filters_no_exclusions
        apply_filters_disabled split: sum.splits)
qed

theorem disabled_equals_no_exclusions_witness:
  "aggregation_results strict_pandas exact_arith strftime_BY_C filtering_disabled loaded_january =
     Some [\<lparr>period_label = ascii ''January 2024'', bonus_accrued = Some 10,
            liters_with_bonus = Some 5, liters_total = Some 8, bonus_redeemed = Some 2,
            rate_per_liter = Some 2\<rparr>]
   \<and> aggregation_results strict_pandas exact_arith strftime_BY_C no_exclusions loaded_january =
     Some [\<lparr>period_label = ascii ''January 2024'', bonus_accrued = Some 10,
            liters_with_bonus = Some 5, liters_total = Some 8, bonus_redeemed = Some 2,
            rate_per_liter = Some 2\<rparr>]"
proof -
  have "aggregation_results strict_pandas exact_arith strftime_BY_C filtering_disabled
          loaded_january =
     Some (calculate_report exact_arith strftime_BY_C january_scenario)"
    by (simp add: aggregation_results_def load_and_process_data_def apply_filters_def
        filtering_disabled_def loaded_january_cleaned)
  then show ?thesis
    using disabled_equals_no_exclusions
      [of strict_pandas exact_arith strftime_BY_C "[14]" "[1118]" loaded_january]
    by (simp add: january_report filtering_disabled_def no_exclusions_def)
qed

section \<open>Properties of the Report Namer\<close>

lemma split_from_token:
  "\<forall>c \<in> set m. \<not> isspace c \<Longrightarrow> split_from tok (m @ rest) = split_from (tok @ m) rest"
  by (induction m arbitrary: tok) auto

lemma isspace_32: "isspace 32"
  by (simp add: isspace_def)

lemma str_split_first_token:
  assumes "m \<noteq> []" and "\<forall>c \<in> set m. \<not> isspace c"
  shows "str_split (m @ [32] @ rest) = m # str_split rest"
  using assms split_from_token [of m "[]" "32 # rest"]
  by (simp add: str_split_def isspace_32)

lemma str_split_one_token:
  assumes "y \<noteq> []" and "\<forall>c \<in> set y. \<not> isspace c"
  shows "str_split y = [y]"
  using assms split_from_token [of y "[]" "[]"]
  by (simp add: str_split_def)

lemma str_split_month_year:
  assumes "m \<noteq> []" and "\<forall>c \<in> set m. \<not> isspace c" and "y \<noteq> []" and "\<forall>c \<in> set y. \<not> isspace c"
  shows "str_split (m @ [32] @ y) = [m, y]"
  by (simp only: str_split_first_token [OF assms(1,2)] str_split_one_token [OF assms(3,4)])

lemma make_sheet_name_not_default: "make_sheet_name a b \<noteq> Inr Otchet"
proof -
  have "45 \<notin> set Otchet" by (simp add: Otchet_def)
  moreover have "45 \<in> set (take 3 fm @ ascii ''-'' @ take 3 lm @ [32] @ ly)" for fm lm ly :: pystr
    by (simp add: ascii_def)
  ultimately have abbr: "take 3 fm @ ascii ''-'' @ take 3 lm @ [32] @ ly \<noteq> Otchet" for fm lm ly
    by metis
  have full: "Otchet_za @ a @ ascii '' - '' @ b \<noteq> Otchet"
  proof
    assume "Otchet_za @ a @ ascii '' - '' @ b = Otchet"
    then have "length (Otchet_za @ a @ ascii '' - '' @ b) = length Otchet" by simp
    then show False by (simp add: Otchet_za_def Otchet_def ascii_def)
  qed
  show ?thesis
    using abbr full
    by (auto simp: make_sheet_name_def Let_def split: list.splits)
qed

lemmas namer_defs =
  get_sheet_name_from_data_def get_sheet_name_from_data_final_def make_sheet_name_def
  str_split_def isspace_def Otchet_za_def Otchet_def ascii_def labelled_def Let_def

lemma report_2024_2025_ends:
  "length report_2024_2025 = 24
   \<and> period_label (hd report_2024_2025) = ascii ''January'' @ [32] @ ascii ''2024''
   \<and> period_label (last report_2024_2025) = ascii ''December'' @ [32] @ ascii ''2025''"
  by (simp add: report_2024_2025_def months_2024_2025_def labelled_def strftime_BY_C_def
      month_name_C_def ascii_def digits.simps)

text \<open>
  C6. For a report of \<open>report.py\<close> with at least two period rows whose labels are a month
  name and a year separated by a space, if the full name is longer than 31 characters the
  Report Namer returns the first three characters of the first and of the last month
  name, joined by a hyphen, and the last year. For the 24 months from January 2024 to
  December 2025 it returns \<open>"Jan-Dec 2025"\<close>.
\<close>

theorem abbreviated_sheet_name:
  assumes "2 \<le> length df_report"
    and "period_label (hd df_report) = m1 @ [32] @ y1"
    and "period_label (last df_report) = m2 @ [32] @ y2"
    and "m1 \<noteq> []" and "\<forall>c \<in> set m1. \<not> isspace c"
    and "m2 \<noteq> []" and "\<forall>c \<in> set m2. \<not> isspace c"
    and "y2 \<noteq> []" and "\<forall>c \<in> set y2. \<not> isspace c"
    and "31 < length (Otchet_za @ period_label (hd df_report) @ ascii '' - ''
                        @ period_label (last df_report))"
  shows "get_sheet_name_from_data df_report =
           Inr (take 3 m1 @ ascii ''-'' @ take 3 m2 @ [32] @ y2)"
proof -
  from assms(1) have ne: "df_report \<noteq> []" by auto
  have h: "df_report ! 0 = hd df_report" and l: "df_report ! (length df_report - 1) = last df_report"
    using ne by (simp_all add: hd_conv_nth last_conv_nth)
  have s1: "str_split (period_label (hd df_report)) = m1 # str_split y1"
    using assms(2) str_split_first_token [OF assms(4,5)] by simp
  have s2: "str_split (period_label (last df_report)) = [m2, y2]"
    using assms(3) str_split_month_year [OF assms(6,7,8,9)] by simp
  have "get_sheet_name_from_data df_report =
          make_sheet_name (period_label (hd df_report)) (period_label (last df_report))"
    unfolding get_sheet_name_from_data_def h l using ne by simp
  also have "\<dots> = Inr (take 3 m1 @ ascii ''-'' @ take 3 m2 @ [32] @ y2)"
    unfolding make_sheet_name_def Let_def s1 s2 using assms(10) by simp
  finally show ?thesis .
qed

theorem abbreviated_sheet_name_witness:
  "2 \<le> length report_2024_2025
   \<and> 31 < length (Otchet_za @ period_label (hd report_2024_2025) @ ascii '' - ''
                    @ period_label (last report_2024_2025))
   \<and> get_sheet_name_from_data report_2024_2025 = Inr (ascii ''Jan-Dec 2025'')"
proof -
  note e = report_2024_2025_ends
  have n: "2 \<le> length report_2024_2025" using e by simp
  have l: "31 < length (Otchet_za @ period_label (hd report_2024_2025) @ ascii '' - ''
                    @ period_label (last report_2024_2025))"
    using e by (simp add: Otchet_za_def Otchet_def ascii_def)
  have "get_sheet_name_from_data report_2024_2025 =
          Inr (take 3 (ascii ''January'') @ ascii ''-'' @ take 3 (ascii ''December'') @ [32]
               @ ascii ''2025'')"
    using e l
    by (intro abbreviated_sheet_name [where ?y1.0 = "ascii ''2024''"] n)
       (simp_all add: ascii_def isspace_def)
  then show ?thesis
    using n l by (simp add: ascii_def)
qed

text \<open>
  The name that \<open>old/report_final.py\<close> gives to its own report: its namer reads the label
  column, which holds no label in a period row, so the name of every report with a period
  row is built from two NaN cells.
\<close>

lemma sheet_name_of_final_report:
  "get_sheet_name_from_data_final (calculate_report_final ar fmt df) =
     (if report_index df = [] then Inr Otchet else Inr (Otchet_za @ ascii ''nan - nan''))"
proof (cases "report_index df = []")
  case True
  then have "calculate_report ar fmt df = []"
    by (simp add: calculate_report_def Let_def)
  then show ?thesis
    using True by (simp add: calculate_report_final_eq get_sheet_name_from_data_final_def)
next
  case False
  define P where "P = calculate_report ar fmt df"
  have n: "P \<noteq> []"
    using False period_labels_report [of ar fmt df] by (auto simp: P_def)
  obtain t where F: "calculate_report_final ar fmt df = map period_row_final P @ [t]"
    by (simp add: calculate_report_final_eq P_def)
  have a: "period_label ((map period_row_final P @ [t]) ! 0) = None"
    using n by (cases P) (simp_all add: period_row_final_def)
  have b: "period_label ((map period_row_final P @ [t]) ! (length P - 1)) = None"
    using n by (simp add: nth_append period_row_final_def)
  have l: "length (map period_row_final P @ [t]) - 2 = length P - 1"
    by simp
  have m: "make_sheet_name_final None None = Inr (Otchet_za @ ascii ''nan - nan'')"
    by (simp add: make_sheet_name_final_def format_label_def Otchet_za_def Otchet_def ascii_def)
  show ?thesis
    using False n unfolding F get_sheet_name_from_data_final_def l a b m by simp
qed

text \<open>
  C5, as the code has it. With no period row (an empty report, or in
  \<open>old/report_final.py\<close> the total row alone) the Report Namer returns the default
  label. With exactly one period row the Report Namer of \<open>report.py\<close> builds the name
  from that period as the first and the last period, and never returns the default label;
  when the period's label has at most 9 characters this is the full name.
\<close>

theorem default_sheet_name:
  fixes p :: "(pystr, 'v) report_row" and t :: "'v final_row"
  shows "get_sheet_name_from_data ([] :: (pystr, 'v) report_row list) = Inr Otchet
   \<and> get_sheet_name_from_data_final ([] :: 'v final_row list) = Inr Otchet
   \<and> get_sheet_name_from_data_final [t] = Inr Otchet
   \<and> get_sheet_name_from_data [p] = make_sheet_name (period_label p) (period_label p)
   \<and> make_sheet_name (period_label p) (period_label p) \<noteq> Inr Otchet
   \<and> (length (period_label p) \<le> 9 \<longrightarrow>
        make_sheet_name (period_label p) (period_label p) =
          Inr (Otchet_za @ period_label p @ ascii '' - '' @ period_label p))"
  by (simp add: get_sheet_name_from_data_def get_sheet_name_from_data_final_def
      make_sheet_name_not_default)
     (simp add: make_sheet_name_def Otchet_za_def Otchet_def ascii_def)

theorem default_sheet_name_witness:
  "length (period_label (labelled (ascii ''June 2024''))) \<le> 9
   \<and> get_sheet_name_from_data [labelled (ascii ''June 2024'')] =
       Inr (Otchet_za @ ascii ''June 2024 - June 2024'')
   \<and> get_sheet_name_from_data_final [total_of_one] = Inr Otchet"
  using default_sheet_name [of total_of_one "labelled (ascii ''June 2024'')"]
  by (simp add: labelled_def ascii_def)

text \<open>
  C5 as stated fails: for the single period row "May 2024" the name is built from the
  period, not the default label.
\<close>

theorem default_sheet_name_counterexample:
  "get_sheet_name_from_data [labelled (ascii ''May 2024'')] =
     Inr (Otchet_za @ ascii ''May 2024 - May 2024'')
   \<and> Otchet_za @ ascii ''May 2024 - May 2024'' \<noteq> Otchet"
  by (simp add: namer_defs)

end
